theory Spec2Isabelle
  imports Main
begin

section \<open>The validation engine of Data-Alchemist (src/app/page.tsx)\<close>

text \<open>
  The validators of \<^verbatim>\<open>page.tsx\<close> are closures that read row objects, push
  messages onto an \<^verbatim>\<open>errors\<close> array and return it. Each one is embedded as a
  function from the datasets to the list of messages; every \<^verbatim>\<open>forEach\<close> is a left
  fold whose accumulator is the array being pushed to.

  Conventions of the embedding:
  \<^item> a row (\<^verbatim>\<open>DataWithId\<close>) is a finite map from column names to cells; an absent
    column reads as \<^verbatim>\<open>undefined\<close>, which is \<open>None\<close> (the source reads rows at
    fixed column names only);
  \<^item> a cell is a string (what the CSV reader delivers) or an integer number (what the
    spreadsheet reader may deliver);
  \<^item> a JavaScript number is \<open>NaN\<close> or an exact integer: the engine's arithmetic is on
    phase numbers, durations, loads and counts, and the model is exact as long as these
    stay in the range where IEEE doubles represent integers exactly and print in plain
    decimal notation. Numeric literals with a fraction, an exponent, a radix prefix or
    \<^verbatim>\<open>Infinity\<close> are outside this fragment;
  \<^item> strings are sequences of 8-bit characters, white space is the ASCII white space;
  \<^item> an object used as a dictionary is a finite map of its own properties; where the source
    reads such an object at a key taken from the data (\<^verbatim>\<open>skillToWorkerCount\<close>), the
    members every object inherits from \<^verbatim>\<open>Object.prototype\<close> are modelled too. A
    \<^verbatim>\<open>Set\<close> is a duplicate-free list in insertion order.
\<close>

subsection \<open>JavaScript values and built-ins\<close>

datatype jsnum = NaN | Fin int

datatype cell = Str string | Num int

type_synonym row = "string \<rightharpoonup> cell"

fun isNaN :: "jsnum \<Rightarrow> bool" where
  "isNaN NaN = True"
| "isNaN (Fin _) = False"

definition isWhiteSpace :: "char \<Rightarrow> bool" where
  "isWhiteSpace c = (c \<in> set [CHR 0x09, CHR 0x0A, CHR 0x0B, CHR 0x0C, CHR 0x0D, CHR 0x20])"

definition trimStart :: "string \<Rightarrow> string" where
  "trimStart s = dropWhile isWhiteSpace s"

definition trim :: "string \<Rightarrow> string" where
  "trim s = rev (dropWhile isWhiteSpace (rev (dropWhile isWhiteSpace s)))"

text \<open>\<^verbatim>\<open>s.split(sep)\<close> for a one-character separator: never empty, \<^verbatim>\<open>"".split(",")\<close> is \<^verbatim>\<open>[""]\<close>.\<close>

fun split :: "char \<Rightarrow> string \<Rightarrow> string list" where
  "split sep [] = [[]]"
| "split sep (c # cs) =
     (if c = sep then [] # split sep cs
      else (case split sep cs of [] \<Rightarrow> [[c]] | t # ts \<Rightarrow> (c # t) # ts))"

fun join :: "string \<Rightarrow> string list \<Rightarrow> string" where
  "join sep [] = []"
| "join sep [x] = x"
| "join sep (x # y # ys) = x @ sep @ join sep (y # ys)"

definition startsWith :: "string \<Rightarrow> string \<Rightarrow> bool" where
  "startsWith s p = (take (length p) s = p)"

definition endsWith :: "string \<Rightarrow> string \<Rightarrow> bool" where
  "endsWith s p = (length p \<le> length s \<and> drop (length s - length p) s = p)"

definition isDigit :: "char \<Rightarrow> bool" where
  "isDigit c = (48 \<le> (of_char c :: nat) \<and> (of_char c :: nat) \<le> 57)"

definition digitVal :: "char \<Rightarrow> int" where
  "digitVal c = int (of_char c) - 48"

definition decimal :: "string \<Rightarrow> int" where
  "decimal ds = foldl (\<lambda>acc c. acc * 10 + digitVal c) 0 ds"

definition allDigits :: "string \<Rightarrow> bool" where
  "allDigits s = (s \<noteq> [] \<and> list_all isDigit s)"

definition isHexDigit :: "char \<Rightarrow> bool" where
  "isHexDigit c = (isDigit c \<or> c \<in> set ''abcdef'' \<or> c \<in> set ''ABCDEF'')"

definition hexVal :: "char \<Rightarrow> int" where
  "hexVal c = (if isDigit c then digitVal c
               else if c \<in> set ''abcdef'' then int (of_char c) - 87
               else int (of_char c) - 55)"

definition hexadecimal :: "string \<Rightarrow> int" where
  "hexadecimal ds = foldl (\<lambda>acc c. acc * 16 + hexVal c) 0 ds"

text \<open>
  \<^verbatim>\<open>Number(s)\<close> on the integer fragment: white space is trimmed, the empty string is 0,
  an optionally signed run of decimal digits is its value, anything else is \<open>NaN\<close>.
\<close>

definition Number :: "string \<Rightarrow> jsnum" where
  "Number s =
     (case trim s of
        [] \<Rightarrow> Fin 0
      | c # r \<Rightarrow>
          if c = CHR ''-'' then (if allDigits r then Fin (- decimal r) else NaN)
          else if c = CHR ''+'' then (if allDigits r then Fin (decimal r) else NaN)
          else if allDigits (c # r) then Fin (decimal (c # r)) else NaN)"

text \<open>
  \<^verbatim>\<open>parseInt(s)\<close> with no radix: leading white space and a sign are skipped, a
  \<^verbatim>\<open>0x\<close> prefix selects radix 16, the longest run of digits is read and the rest of the
  string is ignored; no digit at all gives \<open>NaN\<close>.
\<close>

definition parseMagnitude :: "string \<Rightarrow> int option" where
  "parseMagnitude s =
     (if startsWith s ''0x'' \<or> startsWith s ''0X''
      then (case takeWhile isHexDigit (drop 2 s) of [] \<Rightarrow> None | ds \<Rightarrow> Some (hexadecimal ds))
      else (case takeWhile isDigit s of [] \<Rightarrow> None | ds \<Rightarrow> Some (decimal ds)))"

definition parseInt :: "string \<Rightarrow> jsnum" where
  "parseInt s =
     (case trimStart s of
        [] \<Rightarrow> NaN
      | c # r \<Rightarrow>
          if c = CHR ''-'' then (case parseMagnitude r of None \<Rightarrow> NaN | Some n \<Rightarrow> Fin (- n))
          else if c = CHR ''+'' then (case parseMagnitude r of None \<Rightarrow> NaN | Some n \<Rightarrow> Fin n)
          else (case parseMagnitude (c # r) of None \<Rightarrow> NaN | Some n \<Rightarrow> Fin n))"

fun show_nat :: "nat \<Rightarrow> string" where
  "show_nat n =
     (if n < 10 then [''0123456789'' ! n]
      else show_nat (n div 10) @ [''0123456789'' ! (n mod 10)])"

declare show_nat.simps [simp del]

definition show_int :: "int \<Rightarrow> string" where
  "show_int i = (if i < 0 then CHR ''-'' # show_nat (nat (- i)) else show_nat (nat i))"

fun show_num :: "jsnum \<Rightarrow> string" where
  "show_num NaN = ''NaN''"
| "show_num (Fin i) = show_int i"

text \<open>\<^verbatim>\<open>String(v)\<close> and the conversion a template literal applies.\<close>

fun String :: "cell option \<Rightarrow> string" where
  "String None = ''undefined''"
| "String (Some (Str s)) = s"
| "String (Some (Num n)) = show_int n"

text \<open>Truthiness of a cell: \<^verbatim>\<open>undefined\<close>, \<^verbatim>\<open>""\<close> and \<^verbatim>\<open>0\<close> are falsy.\<close>

fun truthy :: "cell option \<Rightarrow> bool" where
  "truthy None = False"
| "truthy (Some (Str s)) = (s \<noteq> [])"
| "truthy (Some (Num n)) = (n \<noteq> 0)"

text \<open>\<^verbatim>\<open>String(v || '')\<close> and \<^verbatim>\<open>${v || 'N/A'}\<close>.\<close>

definition orEmpty :: "cell option \<Rightarrow> string" where
  "orEmpty v = (if truthy v then String v else [])"

definition orNA :: "cell option \<Rightarrow> string" where
  "orNA v = (if truthy v then String v else ''N/A'')"

text \<open>\<^verbatim>\<open>n || 0\<close> on a number: \<open>NaN\<close> and 0 are falsy.\<close>

fun orZero :: "jsnum \<Rightarrow> int" where
  "orZero NaN = 0"
| "orZero (Fin i) = i"

text \<open>A \<^verbatim>\<open>Set\<close> in insertion order: \<^verbatim>\<open>add\<close> keeps the first occurrence.\<close>

definition setAdd :: "'a list \<Rightarrow> 'a \<Rightarrow> 'a list" where
  "setAdd s x = (if x \<in> set s then s else s @ [x])"

definition newSet :: "'a list \<Rightarrow> 'a list" where
  "newSet xs = foldl setAdd [] xs"

text \<open>\<^verbatim>\<open>xs.indexOf(x)\<close>: the first index holding \<open>x\<close>, \<open>None\<close> for \<^verbatim>\<open>-1\<close>.\<close>

fun indexOf :: "'a list \<Rightarrow> 'a \<Rightarrow> nat option" where
  "indexOf [] x = None"
| "indexOf (y # ys) x = (if y = x then Some 0 else map_option Suc (indexOf ys x))"

subsection \<open>Cross-reference checks\<close>

text \<open>
  \<^verbatim>\<open>validateClientTaskRelationship\<close>: the inner \<^verbatim>\<open>forEach\<close> over the trimmed tokens,
  the outer one over the clients with their row index.
\<close>

definition clientTaskMessage :: "nat \<Rightarrow> row \<Rightarrow> string \<Rightarrow> string" where
  "clientTaskMessage rowIndex client reqId =
     ''Row '' @ show_nat (rowIndex + 1) @ '' (ClientID: '' @ orNA (client ''ClientID'')
       @ ''): Requested Task ID '' @ [CHR 0x27] @ reqId @ [CHR 0x27]
       @ '' not found in tasks data.''"

definition requestedIdStep :: "string list \<Rightarrow> nat \<Rightarrow> row \<Rightarrow> string list \<Rightarrow> string \<Rightarrow> string list" where
  "requestedIdStep taskIds rowIndex client errors reqId =
     (if reqId \<noteq> [] \<and> reqId \<notin> set taskIds
      then errors @ [clientTaskMessage rowIndex client reqId]
      else errors)"

definition requestedIds :: "row \<Rightarrow> string list" where
  "requestedIds client = map trim (split CHR '','' (String (client ''RequestedTaskIDs'')))"

definition clientStep :: "string list \<Rightarrow> string list \<Rightarrow> nat \<times> row \<Rightarrow> string list" where
  "clientStep taskIds errors ic =
     (if truthy (snd ic ''RequestedTaskIDs'')
      then foldl (requestedIdStep taskIds (fst ic) (snd ic)) errors (requestedIds (snd ic))
      else errors)"

definition validateClientTaskRelationship :: "row list \<Rightarrow> row list \<Rightarrow> string list" where
  "validateClientTaskRelationship clients tasks =
     (let taskIds = newSet (map (\<lambda>task. String (task ''TaskID'')) tasks)
      in foldl (clientStep taskIds) [] (enumerate 0 clients))"

text \<open>\<^verbatim>\<open>validateTaskWorkerRelationship\<close>, of the same shape over the workers' skills.\<close>

definition skillsOf :: "row \<Rightarrow> string list" where
  "skillsOf worker =
     filter (\<lambda>s. s \<noteq> []) (map trim (split CHR '','' (orEmpty (worker ''Skills''))))"

definition taskWorkerMessage :: "nat \<Rightarrow> row \<Rightarrow> string \<Rightarrow> string" where
  "taskWorkerMessage rowIndex task reqSkill =
     ''Row '' @ show_nat (rowIndex + 1) @ '' (TaskID: '' @ orNA (task ''TaskID'')
       @ ''): Required skill '' @ [CHR 0x27] @ reqSkill @ [CHR 0x27]
       @ '' not found in any worker'' @ [CHR 0x27] @ ''s skills.''"

definition requiredSkillStep :: "string list \<Rightarrow> nat \<Rightarrow> row \<Rightarrow> string list \<Rightarrow> string \<Rightarrow> string list" where
  "requiredSkillStep workerSkills rowIndex task errors reqSkill =
     (if reqSkill \<noteq> [] \<and> reqSkill \<notin> set workerSkills
      then errors @ [taskWorkerMessage rowIndex task reqSkill]
      else errors)"

definition requiredSkills :: "row \<Rightarrow> string list" where
  "requiredSkills task = map trim (split CHR '','' (String (task ''RequiredSkills'')))"

definition taskSkillStep :: "string list \<Rightarrow> string list \<Rightarrow> nat \<times> row \<Rightarrow> string list" where
  "taskSkillStep workerSkills errors it =
     (if truthy (snd it ''RequiredSkills'')
      then foldl (requiredSkillStep workerSkills (fst it) (snd it)) errors (requiredSkills (snd it))
      else errors)"

definition validateTaskWorkerRelationship :: "row list \<Rightarrow> row list \<Rightarrow> string list" where
  "validateTaskWorkerRelationship tasks workers =
     (let workerSkills = newSet (concat (map skillsOf workers))
      in foldl (taskSkillStep workerSkills) [] (enumerate 0 tasks))"

subsection \<open>Numbers in comparisons\<close>

text \<open>\<^verbatim>\<open>a < b\<close> and \<^verbatim>\<open>a > b\<close> on numbers: every comparison with \<open>NaN\<close> is false.\<close>

fun lessNum :: "jsnum \<Rightarrow> jsnum \<Rightarrow> bool" where
  "lessNum (Fin a) (Fin b) = (a < b)"
| "lessNum _ _ = False"

definition greaterNum :: "jsnum \<Rightarrow> jsnum \<Rightarrow> bool" where
  "greaterNum a b = lessNum b a"

subsection \<open>\<^verbatim>\<open>JSON.parse\<close>\<close>

text \<open>
  A recursive-descent reader of JSON text. The descent into arrays and objects is bounded
  by a fuel argument, which \<open>jsonParse\<close> sets to \<open>2 * length s + 2\<close>: a nested call
  is made for a value and for the rest of an array or object after it, and a value takes
  at least one character. Numbers are read in the integer fragment. The text of a string
  is kept as it is written, escapes included.
\<close>

datatype json =
    JNull
  | JBool bool
  | JNumber int
  | JString string
  | JArray "json list"
  | JObject "(string \<times> json) list"

definition isJsonSpace :: "char \<Rightarrow> bool" where
  "isJsonSpace c = (c \<in> set [CHR 0x20, CHR 0x09, CHR 0x0A, CHR 0x0D])"

definition skipSpace :: "string \<Rightarrow> string" where
  "skipSpace s = dropWhile isJsonSpace s"

fun scanString :: "string \<Rightarrow> (string \<times> string) option" where
  "scanString [] = None"
| "scanString [c] = (if c = CHR 0x22 then Some ([], []) else None)"
| "scanString (c # e # r) =
     (if c = CHR 0x22 then Some ([], e # r)
      else if c = CHR 0x5C then
        (if e \<in> set [CHR 0x22, CHR 0x5C, CHR ''/'', CHR ''b'', CHR ''f'', CHR ''n'', CHR ''r'', CHR ''t'']
         then map_option (\<lambda>(t, r'). (c # e # t, r')) (scanString r)
         else if e = CHR ''u'' \<and> 4 \<le> length r \<and> list_all isHexDigit (take 4 r)
         then map_option (\<lambda>(t, r'). (c # e # take 4 r @ t, r')) (scanString (drop 4 r))
         else None)
      else if (of_char c :: nat) < 32 then None
      else map_option (\<lambda>(t, r'). (c # t, r')) (scanString (e # r)))"

definition scanNumber :: "string \<Rightarrow> (int \<times> string) option" where
  "scanNumber s =
     (let neg = startsWith s ''-'';
          u = (if neg then drop 1 s else s);
          ds = takeWhile isDigit u;
          r = dropWhile isDigit u
      in if ds = [] then None
         else if 1 < length ds \<and> startsWith ds ''0'' then None
         else if startsWith r ''.'' \<or> startsWith r ''e'' \<or> startsWith r ''E'' then None
         else Some (if neg then - decimal ds else decimal ds, r))"

fun parseValue :: "nat \<Rightarrow> string \<Rightarrow> (json \<times> string) option"
  and parseElements :: "nat \<Rightarrow> string \<Rightarrow> (json list \<times> string) option"
  and parseMembers :: "nat \<Rightarrow> string \<Rightarrow> ((string \<times> json) list \<times> string) option"
where
  "parseValue 0 s = None"
| "parseValue (Suc n) s =
     (case skipSpace s of
        [] \<Rightarrow> None
      | c # r \<Rightarrow>
          if c = CHR ''['' then
            (case skipSpace r of
               [] \<Rightarrow> None
             | d # r' \<Rightarrow>
                 if d = CHR '']'' then Some (JArray [], r')
                 else map_option (\<lambda>(vs, t). (JArray vs, t)) (parseElements n r))
          else if c = CHR ''{'' then
            (case skipSpace r of
               [] \<Rightarrow> None
             | d # r' \<Rightarrow>
                 if d = CHR ''}'' then Some (JObject [], r')
                 else map_option (\<lambda>(ms, t). (JObject ms, t)) (parseMembers n r))
          else if c = CHR 0x22 then map_option (\<lambda>(t, r'). (JString t, r')) (scanString r)
          else if startsWith (c # r) ''true'' then Some (JBool True, drop 4 (c # r))
          else if startsWith (c # r) ''false'' then Some (JBool False, drop 5 (c # r))
          else if startsWith (c # r) ''null'' then Some (JNull, drop 4 (c # r))
          else map_option (\<lambda>(i, t). (JNumber i, t)) (scanNumber (c # r)))"
| "parseElements 0 s = None"
| "parseElements (Suc n) s =
     (case parseValue n s of
        None \<Rightarrow> None
      | Some (v, r) \<Rightarrow>
          (case skipSpace r of
             [] \<Rightarrow> None
           | c # r' \<Rightarrow>
               if c = CHR '','' then map_option (\<lambda>(vs, t). (v # vs, t)) (parseElements n r')
               else if c = CHR '']'' then Some ([v], r')
               else None))"
| "parseMembers 0 s = None"
| "parseMembers (Suc n) s =
     (case skipSpace s of
        [] \<Rightarrow> None
      | q # r \<Rightarrow>
          if q = CHR 0x22 then
            (case scanString r of
               None \<Rightarrow> None
             | Some (k, r1) \<Rightarrow>
                 (case skipSpace r1 of
                    [] \<Rightarrow> None
                  | c # r2 \<Rightarrow>
                      if c = CHR '':'' then
                        (case parseValue n r2 of
                           None \<Rightarrow> None
                         | Some (v, r3) \<Rightarrow>
                             (case skipSpace r3 of
                                [] \<Rightarrow> None
                              | d # r4 \<Rightarrow>
                                  if d = CHR '','' then
                                    map_option (\<lambda>(ms, t). ((k, v) # ms, t)) (parseMembers n r4)
                                  else if d = CHR ''}'' then Some ([(k, v)], r4)
                                  else None))
                      else None))
          else None)"

text \<open>\<^verbatim>\<open>JSON.parse(s)\<close>: \<open>None\<close> when it throws a \<^verbatim>\<open>SyntaxError\<close>.\<close>

definition jsonParse :: "string \<Rightarrow> json option" where
  "jsonParse s =
     (case parseValue (2 * length s + 2) s of
        None \<Rightarrow> None
      | Some (v, r) \<Rightarrow> if skipSpace r = [] then Some v else None)"

fun isJNumber :: "json \<Rightarrow> bool" where
  "isJNumber (JNumber _) = True"
| "isJNumber _ = False"

fun numberOf :: "json \<Rightarrow> jsnum" where
  "numberOf (JNumber i) = Fin i"
| "numberOf _ = NaN"

subsection \<open>The regular expressions of the phase syntax\<close>

text \<open>
  The source tests \<^verbatim>\<open>/^\\d+-\\d+$/\<close> and \<^verbatim>\<open>/^\\d+(?:,\\d+)*$/\<close>. In a regular
  expression literal \<^verbatim>\<open>\\\<close> is an escaped backslash, so \<^verbatim>\<open>\\d+\<close> matches a backslash
  character followed by one or more letters \<^verbatim>\<open>d\<close>; it is not the digit class. The
  separators cannot occur inside such a piece, so matching is a test on the pieces of
  \<open>split\<close>.
\<close>

definition backslashDs :: "string \<Rightarrow> bool" where
  "backslashDs s =
     (case s of
        [] \<Rightarrow> False
      | c # ds \<Rightarrow> c = CHR 0x5C \<and> ds \<noteq> [] \<and> list_all (\<lambda>x. x = CHR ''d'') ds)"

definition rangePattern :: "string \<Rightarrow> bool" where
  "rangePattern s =
     (case split CHR ''-'' s of
        [a, b] \<Rightarrow> backslashDs a \<and> backslashDs b
      | _ \<Rightarrow> False)"

definition listPattern :: "string \<Rightarrow> bool" where
  "listPattern s = list_all backslashDs (split CHR '','' s)"

text \<open>\<^verbatim>\<open>/^[0-9]+$/.test(s.trim())\<close>, the test on a token of AvailableSlots.\<close>

definition digitsPattern :: "string \<Rightarrow> bool" where
  "digitsPattern s = allDigits s"

subsection \<open>\<^verbatim>\<open>validateSingleDataset\<close>\<close>

datatype datasetType = Clients | Workers | Tasks

fun typeName :: "datasetType \<Rightarrow> string" where
  "typeName Clients = ''clients''"
| "typeName Workers = ''workers''"
| "typeName Tasks = ''tasks''"

fun requiredColumns :: "datasetType \<Rightarrow> string list" where
  "requiredColumns Clients =
     [''ClientID'', ''ClientName'', ''PriorityLevel'', ''RequestedTaskIDs'', ''GroupTag'',
      ''AttributesJSON'']"
| "requiredColumns Workers =
     [''WorkerID'', ''WorkerName'', ''Skills'', ''AvailableSlots'', ''MaxLoadPerPhase'',
      ''WorkerGroup'', ''QualificationLevel'']"
| "requiredColumns Tasks =
     [''TaskID'', ''TaskName'', ''Category'', ''Duration'', ''RequiredSkills'',
      ''PreferredPhases'', ''MaxConcurrent'']"

fun idField :: "datasetType \<Rightarrow> string" where
  "idField Clients = ''ClientID''"
| "idField Workers = ''WorkerID''"
| "idField Tasks = ''TaskID''"

text \<open>Step 1: the columns of the first row are compared with the required ones.\<close>

definition missingColumns :: "row list \<Rightarrow> datasetType \<Rightarrow> string list" where
  "missingColumns data type =
     (case data of
        [] \<Rightarrow> []
      | first # _ \<Rightarrow> filter (\<lambda>col. first col = None) (requiredColumns type))"

definition missingColumnsCheck :: "row list \<Rightarrow> datasetType \<Rightarrow> string list \<Rightarrow> string list" where
  "missingColumnsCheck data type errors =
     (if missingColumns data type \<noteq> []
      then errors @ [''Missing required columns for '' @ typeName type @ '': ''
                       @ join '', '' (missingColumns data type)]
      else errors)"

text \<open>
  Step 2: \<^verbatim>\<open>ids.filter((id, index) => id !== undefined && ids.indexOf(id) !== index)\<close>,
  then the elements of \<^verbatim>\<open>new Set(duplicateIds)\<close> joined with a comma and a space.
\<close>

definition duplicateIds :: "cell option list \<Rightarrow> cell option list" where
  "duplicateIds ids =
     map snd (filter (\<lambda>(index, id). id \<noteq> None \<and> indexOf ids id \<noteq> Some index)
                     (enumerate 0 ids))"

fun joinItem :: "cell option \<Rightarrow> string" where
  "joinItem None = []"
| "joinItem (Some c) = String (Some c)"

definition duplicateIdsCheck :: "row list \<Rightarrow> datasetType \<Rightarrow> string list \<Rightarrow> string list" where
  "duplicateIdsCheck data type errors =
     (let ids = map (\<lambda>row. row (idField type)) data;
          dups = duplicateIds ids
      in if dups \<noteq> []
         then errors @ [''Duplicate IDs found for '' @ typeName type @ '': ''
                          @ join '', '' (map joinItem (newSet dups))]
         else errors)"

text \<open>Step 3, the body of \<^verbatim>\<open>data.forEach((row, rowIndex) => ...)\<close>, one function per type.\<close>

definition rowLabel :: "nat \<Rightarrow> string \<Rightarrow> row \<Rightarrow> string" where
  "rowLabel rowIndex field row =
     ''Row '' @ show_nat (rowIndex + 1) @ '' ('' @ field @ '': '' @ orNA (row field) @ ''): ''"

definition malformedAttributes :: "row \<Rightarrow> bool" where
  "malformedAttributes row =
     (case row ''AttributesJSON'' of
        Some (Str attrsJson) \<Rightarrow> attrsJson \<noteq> [] \<and> trim attrsJson \<noteq> [] \<and> jsonParse attrsJson = None
      | _ \<Rightarrow> False)"

definition clientChecks :: "nat \<Rightarrow> row \<Rightarrow> string list \<Rightarrow> string list" where
  "clientChecks rowIndex row errors =
     (let priority = parseInt (orEmpty (row ''PriorityLevel''));
          errors1 =
            (if isNaN priority \<or> lessNum priority (Fin 1) \<or> greaterNum priority (Fin 5)
             then errors @ [rowLabel rowIndex ''ClientID'' row
                              @ ''Invalid PriorityLevel. Must be between 1 and 5.'']
             else errors)
      in if malformedAttributes row
         then errors1 @ [rowLabel rowIndex ''ClientID'' row @ ''Malformed AttributesJSON.'']
         else errors1)"

definition malformedSlots :: "row \<Rightarrow> bool" where
  "malformedSlots row =
     (let pieces = split CHR '','' (String (row ''AvailableSlots''));
          slots = map Number pieces
      in list_ex isNaN slots \<or> \<not> list_all (\<lambda>s. digitsPattern (trim s)) pieces)"

definition workerChecks :: "nat \<Rightarrow> row \<Rightarrow> string list \<Rightarrow> string list" where
  "workerChecks rowIndex row errors =
     (let errors1 =
            (if truthy (row ''AvailableSlots'') \<and> malformedSlots row
             then errors @ [rowLabel rowIndex ''WorkerID'' row
                              @ ''Malformed AvailableSlots. Must be comma-separated numbers.'']
             else errors);
          maxLoad = parseInt (orEmpty (row ''MaxLoadPerPhase''))
      in if isNaN maxLoad \<or> lessNum maxLoad (Fin 0)
         then errors1 @ [rowLabel rowIndex ''WorkerID'' row
                           @ ''Invalid MaxLoadPerPhase. Must be a non-negative number.'']
         else errors1)"

text \<open>
  The PreferredPhases branch. The array \<^verbatim>\<open>normalizedPhases\<close> it fills is never read
  again in this function, so only the messages are kept: \<open>None\<close> is a well-formed value.
\<close>

definition phasesProblem :: "string \<Rightarrow> string option" where
  "phasesProblem phasesString =
     (if startsWith phasesString ''['' \<and> endsWith phasesString '']'' then
        (case jsonParse phasesString of
           None \<Rightarrow> Some ''Malformed PreferredPhases JSON array.''
         | Some (JArray parsedArray) \<Rightarrow>
             if list_all isJNumber parsedArray then None
             else Some ''Malformed PreferredPhases array.''
         | Some _ \<Rightarrow> Some ''Malformed PreferredPhases array.'')
      else if rangePattern phasesString then
        (case map Number (split CHR ''-'' phasesString) of
           Fin start # Fin end # _ \<Rightarrow>
             if start \<le> end then None
             else Some (''Malformed PreferredPhases range. Use '' @ [CHR 0x22] @ ''start-end''
                          @ [CHR 0x22] @ '' format where start <= end.'')
         | _ \<Rightarrow> Some (''Malformed PreferredPhases range. Use '' @ [CHR 0x22] @ ''start-end''
                        @ [CHR 0x22] @ '' format where start <= end.''))
      else if listPattern phasesString then
        (if list_ex isNaN (map Number (split CHR '','' phasesString))
         then Some (''Malformed PreferredPhases. Use '' @ [CHR 0x22] @ ''1-3'' @ [CHR 0x22]
                      @ '' or '' @ [CHR 0x22] @ ''2,4,5'' @ [CHR 0x22] @ '' format.'')
         else None)
      else Some (''Malformed PreferredPhases. Use '' @ [CHR 0x22] @ ''1-3'' @ [CHR 0x22]
                   @ '' or '' @ [CHR 0x22] @ ''2,4,5'' @ [CHR 0x22] @ '' format.''))"

definition taskChecks :: "nat \<Rightarrow> row \<Rightarrow> string list \<Rightarrow> string list" where
  "taskChecks rowIndex row errors =
     (let duration = parseInt (orEmpty (row ''Duration''));
          errors1 =
            (if isNaN duration \<or> lessNum duration (Fin 1)
             then errors @ [rowLabel rowIndex ''TaskID'' row
                              @ ''Invalid Duration. Must be 1 or greater.'']
             else errors);
          maxConcurrent = parseInt (orEmpty (row ''MaxConcurrent''));
          errors2 =
            (if isNaN maxConcurrent \<or> lessNum maxConcurrent (Fin 1)
             then errors1 @ [rowLabel rowIndex ''TaskID'' row
                               @ ''Invalid MaxConcurrent. Must be 1 or greater.'']
             else errors1)
      in if truthy (row ''PreferredPhases'')
         then (case phasesProblem (trim (String (row ''PreferredPhases''))) of
                 None \<Rightarrow> errors2
               | Some problem \<Rightarrow> errors2 @ [rowLabel rowIndex ''TaskID'' row @ problem])
         else errors2)"

fun rowChecks :: "datasetType \<Rightarrow> string list \<Rightarrow> nat \<times> row \<Rightarrow> string list" where
  "rowChecks Clients errors (rowIndex, row) = clientChecks rowIndex row errors"
| "rowChecks Workers errors (rowIndex, row) = workerChecks rowIndex row errors"
| "rowChecks Tasks errors (rowIndex, row) = taskChecks rowIndex row errors"

definition validateSingleDataset :: "row list \<Rightarrow> datasetType \<Rightarrow> string list" where
  "validateSingleDataset data type =
     foldl (rowChecks type)
       (duplicateIdsCheck data type (missingColumnsCheck data type []))
       (enumerate 0 data)"

subsection \<open>\<^verbatim>\<open>validateOverloadedWorkers\<close>\<close>

text \<open>
  \<^verbatim>\<open>String(worker.AvailableSlots).split(',').map(Number).filter(n => !isNaN(n))\<close>; the
  saturation check reads the same cell through \<^verbatim>\<open>|| ''\<close>.
\<close>

definition slotNumbers :: "string \<Rightarrow> jsnum list" where
  "slotNumbers s = filter (\<lambda>n. \<not> isNaN n) (map Number (split CHR '','' s))"

definition overloadMessage :: "nat \<Rightarrow> row \<Rightarrow> nat \<Rightarrow> int \<Rightarrow> string" where
  "overloadMessage rowIndex worker count maxLoadPerPhase =
     rowLabel rowIndex ''WorkerID'' worker
       @ ''Worker is overloaded. Available slots ('' @ show_nat count
       @ '') are less than MaxLoadPerPhase ('' @ show_int maxLoadPerPhase @ '').''"

definition overloadStep :: "string list \<Rightarrow> nat \<times> row \<Rightarrow> string list" where
  "overloadStep errors iw =
     (let rowIndex = fst iw; worker = snd iw
      in if truthy (worker ''AvailableSlots'') \<and> worker ''MaxLoadPerPhase'' \<noteq> None
         then (let availableSlots = slotNumbers (String (worker ''AvailableSlots''))
               in case parseInt (orEmpty (worker ''MaxLoadPerPhase'')) of
                    NaN \<Rightarrow> errors
                  | Fin maxLoadPerPhase \<Rightarrow>
                      if int (length availableSlots) < maxLoadPerPhase
                      then errors @ [overloadMessage rowIndex worker (length availableSlots)
                                       maxLoadPerPhase]
                      else errors)
         else errors)"

definition validateOverloadedWorkers :: "row list \<Rightarrow> string list" where
  "validateOverloadedWorkers workerRows = foldl overloadStep [] (enumerate 0 workerRows)"

subsection \<open>\<^verbatim>\<open>parsePreferredPhases\<close> and \<^verbatim>\<open>validatePhaseSlotSaturation\<close>\<close>

definition parsePreferredPhases :: "string \<Rightarrow> jsnum list" where
  "parsePreferredPhases phasesString =
     (if startsWith phasesString ''['' \<and> endsWith phasesString '']'' then
        (case jsonParse phasesString of
           Some (JArray parsedArray) \<Rightarrow>
             if list_all isJNumber parsedArray then map numberOf parsedArray else []
         | _ \<Rightarrow> [])
      else if rangePattern phasesString then
        (case map Number (split CHR ''-'' phasesString) of
           Fin start # Fin end # _ \<Rightarrow> if start \<le> end then map Fin [start..end] else []
         | _ \<Rightarrow> [])
      else if listPattern phasesString then map Number (split CHR '','' phasesString)
      else [])"

text \<open>
  \<^verbatim>\<open>phaseCapacities\<close> is an object indexed by phase numbers. \<^verbatim>\<open>x || 0\<close> on a
  looked-up entry reads a missing one as 0. Its keys are numbers written out, and no
  member an object inherits has such a name.
\<close>

definition entryOrZero :: "int option \<Rightarrow> int" where
  "entryOrZero e = (case e of None \<Rightarrow> 0 | Some v \<Rightarrow> v)"

definition maxLoadOf :: "row \<Rightarrow> int" where
  "maxLoadOf worker = orZero (parseInt (orEmpty (worker ''MaxLoadPerPhase'')))"

definition durationOf :: "row \<Rightarrow> int" where
  "durationOf task = orZero (parseInt (orEmpty (task ''Duration'')))"

definition availableSlotsOf :: "row \<Rightarrow> jsnum list" where
  "availableSlotsOf worker = slotNumbers (orEmpty (worker ''AvailableSlots''))"

definition preferredPhasesOf :: "row \<Rightarrow> jsnum list" where
  "preferredPhasesOf task = parsePreferredPhases (orEmpty (task ''PreferredPhases''))"

definition addCapacity :: "row \<Rightarrow> (jsnum \<rightharpoonup> int) \<Rightarrow> jsnum \<Rightarrow> (jsnum \<rightharpoonup> int)" where
  "addCapacity worker phaseCapacities phase =
     phaseCapacities(phase \<mapsto> entryOrZero (phaseCapacities phase) + maxLoadOf worker)"

definition capacityStep :: "(jsnum \<rightharpoonup> int) \<Rightarrow> row \<Rightarrow> (jsnum \<rightharpoonup> int)" where
  "capacityStep phaseCapacities worker =
     foldl (addCapacity worker) phaseCapacities (availableSlotsOf worker)"

definition phaseCapacitiesOf :: "row list \<Rightarrow> (jsnum \<rightharpoonup> int)" where
  "phaseCapacitiesOf workerRows = foldl capacityStep Map.empty workerRows"

definition allPhasesOf :: "row list \<Rightarrow> jsnum list" where
  "allPhasesOf taskRows =
     foldl (\<lambda>allPhases task. foldl setAdd allPhases (preferredPhasesOf task)) [] taskRows"

text \<open>
  \<^verbatim>\<open>Array.from(allPhases).sort((a, b) => a - b)\<close>. A comparator result of \<open>NaN\<close>
  counts as 0. On numbers other than \<open>NaN\<close> every sorting algorithm gives the ascending
  list; the order JavaScript gives when \<open>NaN\<close> is among them is left to the engine, and
  the embedding takes a stable insertion sort.
\<close>

fun comparePhases :: "jsnum \<Rightarrow> jsnum \<Rightarrow> int" where
  "comparePhases (Fin a) (Fin b) = a - b"
| "comparePhases _ _ = 0"

fun insertPhase :: "jsnum \<Rightarrow> jsnum list \<Rightarrow> jsnum list" where
  "insertPhase x [] = [x]"
| "insertPhase x (y # ys) =
     (if comparePhases x y < 0 then x # y # ys else y # insertPhase x ys)"

definition sortPhases :: "jsnum list \<Rightarrow> jsnum list" where
  "sortPhases xs = foldl (\<lambda>sorted x. insertPhase x sorted) [] xs"

definition totalTaskDurationInPhase :: "row list \<Rightarrow> jsnum \<Rightarrow> int" where
  "totalTaskDurationInPhase taskRows phase =
     foldl (\<lambda>sofar task. if phase \<in> set (preferredPhasesOf task)
                          then sofar + durationOf task else sofar)
       0 taskRows"

definition saturationMessage :: "jsnum \<Rightarrow> int \<Rightarrow> int \<Rightarrow> string" where
  "saturationMessage phase demand availableCapacity =
     ''Phase '' @ show_num phase @ '': Total task duration ('' @ show_int demand
       @ '') exceeds available worker capacity ('' @ show_int availableCapacity @ '').''"

definition saturationStep ::
  "row list \<Rightarrow> (jsnum \<rightharpoonup> int) \<Rightarrow> string list \<Rightarrow> jsnum \<Rightarrow> string list" where
  "saturationStep taskRows phaseCapacities errors phase =
     (let demand = totalTaskDurationInPhase taskRows phase;
          availableCapacity = entryOrZero (phaseCapacities phase)
      in if demand > availableCapacity
         then errors @ [saturationMessage phase demand availableCapacity]
         else errors)"

text \<open>
  The dictionary \<^verbatim>\<open>taskDurations\<close> that the source also fills is never read and is left
  out.
\<close>

definition validatePhaseSlotSaturation :: "row list \<Rightarrow> row list \<Rightarrow> string list" where
  "validatePhaseSlotSaturation taskRows workerRows =
     foldl (saturationStep taskRows (phaseCapacitiesOf workerRows)) []
       (sortPhases (allPhasesOf taskRows))"

subsection \<open>\<^verbatim>\<open>validateMaxConcurrencyFeasibility\<close>\<close>

text \<open>
  \<^verbatim>\<open>skillToWorkerCount\<close> is the object literal \<^verbatim>\<open>{}\<close>, read and written at skill
  names. Reading a key the object does not own finds the member of that name that every
  object inherits from \<^verbatim>\<open>Object.prototype\<close>, if there is one: a function, or for
  \<^verbatim>\<open>__proto__\<close> the prototype object. Such a value is not \<^verbatim>\<open>undefined\<close> and is
  truthy; adding 1 to it gives a string that reads as no number, which the loop stores;
  comparing the value or that string with a number is false. Assigning a string to
  \<^verbatim>\<open>__proto__\<close> is ignored by its setter. A property is therefore a number or a value
  that is no number.
\<close>

definition objectPrototypeNames :: "string list" where
  "objectPrototypeNames =
     [''constructor'', ''__defineGetter__'', ''__defineSetter__'', ''hasOwnProperty'',
      ''__lookupGetter__'', ''__lookupSetter__'', ''isPrototypeOf'', ''propertyIsEnumerable'',
      ''toString'', ''valueOf'', ''__proto__'', ''toLocaleString'']"

datatype property = NumberValue int | NotNumber

definition readProperty :: "(string \<rightharpoonup> property) \<Rightarrow> string \<Rightarrow> property option" where
  "readProperty obj key =
     (case obj key of
        Some v \<Rightarrow> Some v
      | None \<Rightarrow> if key \<in> set objectPrototypeNames then Some NotNumber else None)"

definition writeProperty ::
  "(string \<rightharpoonup> property) \<Rightarrow> string \<Rightarrow> property \<Rightarrow> (string \<rightharpoonup> property)" where
  "writeProperty obj key v = (if key = ''__proto__'' then obj else obj(key \<mapsto> v))"

text \<open>
  \<^verbatim>\<open>skillToWorkerCount[skill] = (skillToWorkerCount[skill] || 0) + 1\<close>; on a number
  \<open>n\<close> the value of \<^verbatim>\<open>n || 0\<close> is \<open>n\<close>.
\<close>

definition countSkill :: "(string \<rightharpoonup> property) \<Rightarrow> string \<Rightarrow> (string \<rightharpoonup> property)" where
  "countSkill skillToWorkerCount skill =
     writeProperty skillToWorkerCount skill
       (case readProperty skillToWorkerCount skill of
          None \<Rightarrow> NumberValue 1
        | Some (NumberValue n) \<Rightarrow> NumberValue (n + 1)
        | Some NotNumber \<Rightarrow> NotNumber)"

definition skillToWorkerCountOf :: "row list \<Rightarrow> (string \<rightharpoonup> property)" where
  "skillToWorkerCountOf workerRows =
     foldl (\<lambda>counts worker. foldl countSkill counts (skillsOf worker)) Map.empty workerRows"

text \<open>
  \<^verbatim>\<open>if (skillToWorkerCount[skill] === undefined || skillToWorkerCount[skill] < maxConcurrent)
  canMeetConcurrency = false\<close>
\<close>

definition skillStep ::
  "(string \<rightharpoonup> property) \<Rightarrow> int \<Rightarrow> bool \<Rightarrow> string \<Rightarrow> bool" where
  "skillStep skillToWorkerCount maxConcurrent canMeetConcurrency skill =
     (case readProperty skillToWorkerCount skill of
        None \<Rightarrow> False
      | Some (NumberValue n) \<Rightarrow> if n < maxConcurrent then False else canMeetConcurrency
      | Some NotNumber \<Rightarrow> canMeetConcurrency)"

definition concurrencyMessage :: "nat \<Rightarrow> row \<Rightarrow> int \<Rightarrow> string" where
  "concurrencyMessage rowIndex task maxConcurrent =
     rowLabel rowIndex ''TaskID'' task @ ''MaxConcurrent ('' @ show_int maxConcurrent
       @ '') might not be feasible for all required skills. Not enough qualified workers.''"

definition concurrencyStep ::
  "(string \<rightharpoonup> property) \<Rightarrow> string list \<Rightarrow> nat \<times> row \<Rightarrow> string list" where
  "concurrencyStep skillToWorkerCount errors it =
     (let rowIndex = fst it; task = snd it
      in if truthy (task ''RequiredSkills'') \<and> task ''MaxConcurrent'' \<noteq> None
         then (case parseInt (orEmpty (task ''MaxConcurrent'')) of
                 NaN \<Rightarrow> errors
               | Fin maxConcurrent \<Rightarrow>
                   if maxConcurrent > 0
                   then (if foldl (skillStep skillToWorkerCount maxConcurrent) True
                                (requiredSkills task)
                         then errors
                         else errors @ [concurrencyMessage rowIndex task maxConcurrent])
                   else errors)
         else errors)"

definition validateMaxConcurrencyFeasibility :: "row list \<Rightarrow> row list \<Rightarrow> string list" where
  "validateMaxConcurrencyFeasibility taskRows workerRows =
     foldl (concurrencyStep (skillToWorkerCountOf workerRows)) [] (enumerate 0 taskRows)"

text \<open>The two placeholders return the empty array they create.\<close>

definition validateCircularCoRunGroups :: "row list \<Rightarrow> string list" where
  "validateCircularCoRunGroups taskRows = []"

definition validateConflictingRules :: "row list \<Rightarrow> string list" where
  "validateConflictingRules taskRows = []"

subsection \<open>\<^verbatim>\<open>triggerFullValidation\<close>\<close>

text \<open>
  \<^verbatim>\<open>allErrors\<close> is an object from dataset keys to message arrays; it is an association
  list in the order in which the keys are created. \<^verbatim>\<open>allErrors[key] || []\<close> reads a
  missing key as the empty array.
\<close>

type_synonym report = "(string \<times> string list) list"

definition errorsAt :: "report \<Rightarrow> string \<Rightarrow> string list" where
  "errorsAt allErrors key = (case map_of allErrors key of None \<Rightarrow> [] | Some es \<Rightarrow> es)"

definition assign :: "string \<Rightarrow> string list \<Rightarrow> report \<Rightarrow> report" where
  "assign key es allErrors =
     (if key \<in> set (map fst allErrors)
      then map (\<lambda>(k, old). if k = key then (k, es) else (k, old)) allErrors
      else allErrors @ [(key, es)])"

text \<open>\<^verbatim>\<open>if (found.length > 0) allErrors[key] = [...(allErrors[key] || []), ...found]\<close>\<close>

definition addErrors :: "string \<Rightarrow> string list \<Rightarrow> report \<Rightarrow> report" where
  "addErrors key found allErrors =
     (if found \<noteq> [] then assign key (errorsAt allErrors key @ found) allErrors else allErrors)"

text \<open>
  The body of the deferred callback, on the three datasets it validates and on the
  \<^verbatim>\<open>tasksData\<close> of the component state, which the two placeholders receive.
\<close>

definition runValidation :: "row list \<Rightarrow> row list \<Rightarrow> row list \<Rightarrow> row list \<Rightarrow> report" where
  "runValidation allClientsData allWorkersData allTasksData tasksData =
     (let allErrors0 = [];
          allErrors1 = addErrors ''clients'' (validateSingleDataset allClientsData Clients) allErrors0;
          allErrors2 = addErrors ''workers'' (validateSingleDataset allWorkersData Workers) allErrors1;
          allErrors3 = addErrors ''tasks'' (validateSingleDataset allTasksData Tasks) allErrors2;
          allErrors4 =
            (if allClientsData \<noteq> [] \<and> allTasksData \<noteq> []
             then addErrors ''clients''
                    (validateClientTaskRelationship allClientsData allTasksData) allErrors3
             else allErrors3);
          allErrors5 =
            (if allTasksData \<noteq> [] \<and> allWorkersData \<noteq> []
             then addErrors ''tasks''
                    (validateTaskWorkerRelationship allTasksData allWorkersData) allErrors4
             else allErrors4);
          allErrors6 = addErrors ''workers'' (validateOverloadedWorkers allWorkersData) allErrors5;
          allErrors7 =
            addErrors ''tasks'' (validatePhaseSlotSaturation allTasksData allWorkersData) allErrors6;
          allErrors8 =
            addErrors ''tasks'' (validateMaxConcurrencyFeasibility allTasksData allWorkersData)
              allErrors7;
          allErrors9 = addErrors ''tasks'' (validateCircularCoRunGroups tasksData) allErrors8
      in addErrors ''tasks'' (validateConflictingRules tasksData) allErrors9)"

text \<open>
  The component state the closure reads and writes. The callback runs on the values the
  closure captured: an override when one is passed (an array is truthy even when empty),
  the captured state otherwise. The setter for the dataset named by \<^verbatim>\<open>fileName\<close> and
  \<^verbatim>\<open>setValidationErrors\<close> take effect in the next state.
\<close>

record appState =
  clientsData :: "row list"
  workersData :: "row list"
  tasksData :: "row list"
  validationErrors :: report

text \<open>\<^verbatim>\<open>s.includes(p)\<close>: \<open>p\<close> occurs in \<open>s\<close>.\<close>

fun includesText :: "string \<Rightarrow> string \<Rightarrow> bool" where
  "includesText [] p = (p = [])"
| "includesText (c # cs) p = (startsWith (c # cs) p \<or> includesText cs p)"

definition orState :: "row list option \<Rightarrow> row list \<Rightarrow> row list" where
  "orState override current = (case override of None \<Rightarrow> current | Some d \<Rightarrow> d)"

definition storeParsed :: "string \<Rightarrow> row list \<Rightarrow> appState \<Rightarrow> appState" where
  "storeParsed fileName currentData st =
     (if includesText fileName ''clients'' then st\<lparr>clientsData := currentData\<rparr>
      else if includesText fileName ''workers'' then st\<lparr>workersData := currentData\<rparr>
      else if includesText fileName ''tasks'' then st\<lparr>tasksData := currentData\<rparr>
      else st)"

definition triggerFullValidation ::
  "string \<Rightarrow> row list \<Rightarrow> row list option \<Rightarrow> row list option \<Rightarrow> row list option
     \<Rightarrow> appState \<Rightarrow> appState" where
  "triggerFullValidation fileName currentData clientsDataOverride workersDataOverride
       tasksDataOverride st =
     (storeParsed fileName currentData st)
       \<lparr>validationErrors :=
          runValidation (orState clientsDataOverride (clientsData st))
            (orState workersDataOverride (workersData st))
            (orState tasksDataOverride (tasksData st))
            (tasksData st)\<rparr>"

subsection \<open>Readings of the specification\<close>

text \<open>
  The specification describes three quantities by sets where the source counts list
  entries. They are written down here as the specification words them, to be compared
  with what the source computes:
  \<^item> the capacity of a phase is the sum of MaxLoadPerPhase over the workers whose
    AvailableSlots include the phase;
  \<^item> the supply of a skill is the number of workers whose Skills include it;
  \<^item> a delimited list is trimmed and split on commas, and the empty string is the empty
    list.
\<close>

definition spec_phaseCapacity :: "row list \<Rightarrow> jsnum \<Rightarrow> int" where
  "spec_phaseCapacity workerRows p =
     (\<Sum>w\<leftarrow>filter (\<lambda>w. p \<in> set (availableSlotsOf w)) workerRows. maxLoadOf w)"


definition spec_availableSlots :: "row \<Rightarrow> string list" where
  "spec_availableSlots worker =
     (if trim (orEmpty (worker ''AvailableSlots'')) = [] then []
      else map trim (split CHR '','' (orEmpty (worker ''AvailableSlots''))))"

subsection \<open>Rows used in the scenarios\<close>

definition taskWithPhases :: "string \<Rightarrow> row" where
  "taskWithPhases phases =
     [''TaskID'' \<mapsto> Str ''T1'', ''TaskName'' \<mapsto> Str ''Build'', ''Category'' \<mapsto> Str ''Dev'',
      ''Duration'' \<mapsto> Str ''2'', ''RequiredSkills'' \<mapsto> Str ''python'',
      ''PreferredPhases'' \<mapsto> Str phases, ''MaxConcurrent'' \<mapsto> Str ''1'']"

definition malformedPhasesMessage :: string where
  "malformedPhasesMessage =
     ''Row 1 (TaskID: T1): Malformed PreferredPhases. Use '' @ [CHR 0x22] @ ''1-3'' @ [CHR 0x22]
       @ '' or '' @ [CHR 0x22] @ ''2,4,5'' @ [CHR 0x22] @ '' format.''"

definition taskPhases :: "string \<Rightarrow> int \<Rightarrow> row" where
  "taskPhases phases duration = [''PreferredPhases'' \<mapsto> Str phases, ''Duration'' \<mapsto> Num duration]"

definition workerSlots :: "string \<Rightarrow> int \<Rightarrow> row" where
  "workerSlots slots load = [''AvailableSlots'' \<mapsto> Str slots, ''MaxLoadPerPhase'' \<mapsto> Num load]"


definition taskSkilled :: "string \<Rightarrow> int \<Rightarrow> row" where
  "taskSkilled skills k = [''RequiredSkills'' \<mapsto> Str skills, ''MaxConcurrent'' \<mapsto> Num k]"

definition clientRequesting :: "string \<Rightarrow> row" where
  "clientRequesting ids = [''ClientID'' \<mapsto> Str ''C1'', ''RequestedTaskIDs'' \<mapsto> Str ids]"

definition taskNamed :: "string \<Rightarrow> row" where
  "taskNamed taskId = [''TaskID'' \<mapsto> Str taskId]"


definition snapshot :: "report \<Rightarrow> appState" where
  "snapshot previous =
     \<lparr>clientsData = [clientRequesting ''T1,T9''], workersData = [],
      tasksData = [taskNamed ''T1''], validationErrors = previous\<rparr>"


section \<open>Properties\<close>

subsection \<open>Sets in insertion order\<close>

lemma set_foldl_setAdd: "set (foldl setAdd s xs) = set s \<union> set xs"
  by (induction xs arbitrary: s) (auto simp: setAdd_def)

lemma distinct_foldl_setAdd: "distinct s \<Longrightarrow> distinct (foldl setAdd s xs)"
  by (induction xs arbitrary: s) (auto simp: setAdd_def)

lemma set_newSet: "set (newSet xs) = set xs"
  by (simp add: newSet_def set_foldl_setAdd)


lemma requestedId_fold:
  "foldl (requestedIdStep ids i c) errs toks =
     errs @ map (clientTaskMessage i c) (filter (\<lambda>t. t \<noteq> [] \<and> t \<notin> set ids) toks)"
  by (induction toks arbitrary: errs) (simp_all add: requestedIdStep_def)

lemma requiredSkill_fold:
  "foldl (requiredSkillStep ws i c) errs toks =
     errs @ map (taskWorkerMessage i c) (filter (\<lambda>t. t \<noteq> [] \<and> t \<notin> set ws) toks)"
  by (induction toks arbitrary: errs) (simp_all add: requiredSkillStep_def)

subsection \<open>Every loop only appends to the error array\<close>

lemma foldl_pushes:
  assumes "\<And>errs x. f errs x = errs @ g x"
  shows "foldl f errs xs = errs @ concat (map g xs)"
proof (induction xs arbitrary: errs)
  case Nil
  show ?case by simp
next
  case (Cons x xs)
  have "foldl f errs (x # xs) = foldl f (f errs x) xs" by simp
  also have "\<dots> = f errs x @ concat (map g xs)" by (rule Cons.IH)
  also have "\<dots> = errs @ concat (map g (x # xs))" unfolding assms [of errs x] by simp
  finally show ?case .
qed

lemma concat_map_if:
  "concat (map (\<lambda>x. if P x then [f x] else []) xs) = map f (filter P xs)"
  by (induction xs) simp_all

lemma clientStep_pushes: "clientStep ids errs ic = errs @ clientStep ids [] ic"
  by (simp add: clientStep_def requestedId_fold)

lemma taskSkillStep_pushes: "taskSkillStep ws errs it = errs @ taskSkillStep ws [] it"
  by (simp add: taskSkillStep_def requiredSkill_fold)

lemma overloadStep_pushes: "overloadStep errs iw = errs @ overloadStep [] iw"
  by (simp add: overloadStep_def Let_def split: jsnum.splits)

lemma concurrencyStep_pushes: "concurrencyStep m errs it = errs @ concurrencyStep m [] it"
  by (simp add: concurrencyStep_def Let_def split: jsnum.splits)

lemma saturationStep_pushes: "saturationStep ts caps errs p = errs @ saturationStep ts caps [] p"
  by (simp add: saturationStep_def Let_def)

lemma clientChecks_pushes: "clientChecks i r errs = errs @ clientChecks i r []"
  by (simp add: clientChecks_def Let_def)

lemma workerChecks_pushes: "workerChecks i r errs = errs @ workerChecks i r []"
  by (simp add: workerChecks_def Let_def)

lemma taskChecks_pushes: "taskChecks i r errs = errs @ taskChecks i r []"
  by (simp add: taskChecks_def Let_def split: option.splits)

lemma rowChecks_pushes: "rowChecks ty errs ir = errs @ rowChecks ty [] ir"
proof (cases ir)
  case (Pair i r)
  show ?thesis
  proof (cases ty)
    case Clients
    then show ?thesis using clientChecks_pushes [of i r errs] Pair by simp
  next
    case Workers
    then show ?thesis using workerChecks_pushes [of i r errs] Pair by simp
  next
    case Tasks
    then show ?thesis using taskChecks_pushes [of i r errs] Pair by simp
  qed
qed

lemma missingColumnsCheck_pushes:
  "missingColumnsCheck d ty errs = errs @ missingColumnsCheck d ty []"
  by (simp add: missingColumnsCheck_def)

lemma validateClientTaskRelationship_rows:
  "validateClientTaskRelationship cs ts =
     concat (map (clientStep (newSet (map (\<lambda>task. String (task ''TaskID'')) ts)) [])
                 (enumerate 0 cs))"
  unfolding validateClientTaskRelationship_def Let_def
  using foldl_pushes [where f = "clientStep (newSet (map (\<lambda>task. String (task ''TaskID'')) ts))"
      and g = "clientStep (newSet (map (\<lambda>task. String (task ''TaskID'')) ts)) []" and errs = "[]", OF clientStep_pushes]
  by simp

lemma validateTaskWorkerRelationship_rows:
  "validateTaskWorkerRelationship ts ws =
     concat (map (taskSkillStep (newSet (concat (map skillsOf ws))) []) (enumerate 0 ts))"
  unfolding validateTaskWorkerRelationship_def Let_def
  using foldl_pushes [where f = "taskSkillStep (newSet (concat (map skillsOf ws)))"
      and g = "taskSkillStep (newSet (concat (map skillsOf ws))) []" and errs = "[]", OF taskSkillStep_pushes]
  by simp

lemma validateOverloadedWorkers_rows:
  "validateOverloadedWorkers ws = concat (map (overloadStep []) (enumerate 0 ws))"
  unfolding validateOverloadedWorkers_def
  using foldl_pushes [where f = overloadStep and g = "overloadStep []" and errs = "[]", OF overloadStep_pushes]
  by simp

lemma validateMaxConcurrencyFeasibility_rows:
  "validateMaxConcurrencyFeasibility ts ws =
     concat (map (concurrencyStep (skillToWorkerCountOf ws) []) (enumerate 0 ts))"
  unfolding validateMaxConcurrencyFeasibility_def
  using foldl_pushes [where f = "concurrencyStep (skillToWorkerCountOf ws)"
      and g = "concurrencyStep (skillToWorkerCountOf ws) []" and errs = "[]", OF concurrencyStep_pushes]
  by simp

lemma validatePhaseSlotSaturation_phases:
  "validatePhaseSlotSaturation ts ws =
     concat (map (saturationStep ts (phaseCapacitiesOf ws) []) (sortPhases (allPhasesOf ts)))"
  unfolding validatePhaseSlotSaturation_def
  using foldl_pushes [where f = "saturationStep ts (phaseCapacitiesOf ws)"
      and g = "saturationStep ts (phaseCapacitiesOf ws) []" and errs = "[]", OF saturationStep_pushes]
  by simp

lemma validateSingleDataset_rows:
  "validateSingleDataset d ty =
     duplicateIdsCheck d ty (missingColumnsCheck d ty []) @ concat (map (rowChecks ty []) (enumerate 0 d))"
  unfolding validateSingleDataset_def
  using foldl_pushes [where f = "rowChecks ty" and g = "rowChecks ty []", OF rowChecks_pushes]
  by simp

subsection \<open>The report object\<close>

lemma map_of_overwrite_same:
  "map_of (map (\<lambda>(k0, old). if k0 = k then (k0, es) else (k0, old)) r) k =
     (if k \<in> fst ` set r then Some es else None)"
  by (induction r) (simp_all add: case_prod_beta)

lemma map_of_overwrite_other:
  "k' \<noteq> k \<Longrightarrow>
   map_of (map (\<lambda>(k0, old). if k0 = k then (k0, es) else (k0, old)) r) k' = map_of r k'"
  by (induction r) (simp_all add: case_prod_beta)

lemma map_of_assign:
  "map_of (assign k es r) k' = (if k' = k then Some es else map_of r k')"
proof (cases "k \<in> fst ` set r")
  case False
  then have "map_of r k = None" by (simp add: map_of_eq_None_iff)
  with False show ?thesis
    by (simp add: assign_def map_add_def split: option.splits)
next
  case True
  then show ?thesis by (simp add: assign_def map_of_overwrite_same map_of_overwrite_other)
qed

lemma errorsAt_addErrors:
  "errorsAt (addErrors k es r) k' = (if k' = k then errorsAt r k @ es else errorsAt r k')"
  by (simp add: addErrors_def errorsAt_def map_of_assign)

lemma errorsAt_Nil: "errorsAt [] k = []"
  by (simp add: errorsAt_def)

lemma report_clients:
  "errorsAt (runValidation c w t ts) ''clients'' =
     validateSingleDataset c Clients @
     (if c \<noteq> [] \<and> t \<noteq> [] then validateClientTaskRelationship c t else [])"
  by (simp add: runValidation_def Let_def errorsAt_addErrors errorsAt_Nil)

lemma report_workers:
  "errorsAt (runValidation c w t ts) ''workers'' =
     validateSingleDataset w Workers @ validateOverloadedWorkers w"
  by (simp add: runValidation_def Let_def errorsAt_addErrors errorsAt_Nil)

lemma report_tasks:
  "errorsAt (runValidation c w t ts) ''tasks'' =
     validateSingleDataset t Tasks @
     (if t \<noteq> [] \<and> w \<noteq> [] then validateTaskWorkerRelationship t w else []) @
     validatePhaseSlotSaturation t w @ validateMaxConcurrencyFeasibility t w"
  by (simp add: runValidation_def Let_def errorsAt_addErrors errorsAt_Nil
      validateCircularCoRunGroups_def validateConflictingRules_def)

subsection \<open>Phase capacities, demands and the sorted phases\<close>

lemma entryOrZero_simps [simp]: "entryOrZero None = 0" "entryOrZero (Some v) = v"
  by (simp_all add: entryOrZero_def)

lemma addCapacity_at:
  "entryOrZero (addCapacity w m s p) = entryOrZero (m p) + (if s = p then maxLoadOf w else 0)"
  by (simp add: addCapacity_def entryOrZero_def)

lemma addCapacity_fold:
  "entryOrZero (foldl (addCapacity w) m slots p) =
     entryOrZero (m p) + int (count_list slots p) * maxLoadOf w"
proof (induction slots arbitrary: m)
  case Nil
  show ?case by simp
next
  case (Cons s slots)
  have "entryOrZero (foldl (addCapacity w) m (s # slots) p) =
          entryOrZero (foldl (addCapacity w) (addCapacity w m s) slots p)"
    by simp
  also have "\<dots> = entryOrZero (addCapacity w m s p) + int (count_list slots p) * maxLoadOf w"
    by (rule Cons.IH)
  finally show ?case by (simp add: addCapacity_at [of w m s p] algebra_simps)
qed

lemma capacityStep_fold:
  "entryOrZero (foldl capacityStep m ws p) =
     entryOrZero (m p) + (\<Sum>w\<leftarrow>ws. int (count_list (availableSlotsOf w) p) * maxLoadOf w)"
proof (induction ws arbitrary: m)
  case Nil
  show ?case by simp
next
  case (Cons w ws)
  have "entryOrZero (foldl capacityStep m (w # ws) p) =
          entryOrZero (foldl capacityStep (capacityStep m w) ws p)"
    by simp
  also have "\<dots> = entryOrZero (capacityStep m w p) +
      (\<Sum>w\<leftarrow>ws. int (count_list (availableSlotsOf w) p) * maxLoadOf w)"
    by (rule Cons.IH)
  also have "entryOrZero (capacityStep m w p) =
      entryOrZero (m p) + int (count_list (availableSlotsOf w) p) * maxLoadOf w"
    unfolding capacityStep_def by (rule addCapacity_fold)
  finally show ?case by simp
qed

lemma phaseCapacities_sum:
  "entryOrZero (phaseCapacitiesOf ws p) =
     (\<Sum>w\<leftarrow>ws. int (count_list (availableSlotsOf w) p) * maxLoadOf w)"
  by (simp add: phaseCapacitiesOf_def capacityStep_fold)

lemma totalDuration_fold:
  "foldl (\<lambda>sofar task. if p \<in> set (preferredPhasesOf task) then sofar + durationOf task else sofar) a ts
     = a + (\<Sum>t\<leftarrow>filter (\<lambda>t. p \<in> set (preferredPhasesOf t)) ts. durationOf t)"
  by (induction ts arbitrary: a) simp_all

lemma totalDuration_sum:
  "totalTaskDurationInPhase ts p = (\<Sum>t\<leftarrow>filter (\<lambda>t. p \<in> set (preferredPhasesOf t)) ts. durationOf t)"
  by (simp add: totalTaskDurationInPhase_def totalDuration_fold)

lemma set_insertPhase: "set (insertPhase x ys) = insert x (set ys)"
  by (induction ys) auto

lemma distinct_insertPhase: "distinct (insertPhase x ys) = (x \<notin> set ys \<and> distinct ys)"
  by (induction ys) (auto simp: set_insertPhase)

lemma set_sort_fold:
  "set (foldl (\<lambda>sorted x. insertPhase x sorted) acc xs) = set acc \<union> set xs"
  by (induction xs arbitrary: acc) (auto simp: set_insertPhase)

lemma distinct_sort_fold:
  "distinct (foldl (\<lambda>sorted x. insertPhase x sorted) acc xs) =
     (distinct acc \<and> distinct xs \<and> set acc \<inter> set xs = {})"
  by (induction xs arbitrary: acc) (auto simp: set_insertPhase distinct_insertPhase)

lemma set_sortPhases: "set (sortPhases xs) = set xs"
  by (simp add: sortPhases_def set_sort_fold)

lemma distinct_sortPhases: "distinct (sortPhases xs) = distinct xs"
  by (simp add: sortPhases_def distinct_sort_fold)

lemma set_allPhases_fold:
  "set (foldl (\<lambda>allPhases task. foldl setAdd allPhases (preferredPhasesOf task)) acc ts) =
     set acc \<union> (\<Union>t\<in>set ts. set (preferredPhasesOf t))"
  by (induction ts arbitrary: acc) (auto simp: set_foldl_setAdd)

lemma distinct_allPhases_fold:
  "distinct acc \<Longrightarrow>
   distinct (foldl (\<lambda>allPhases task. foldl setAdd allPhases (preferredPhasesOf task)) acc ts)"
  by (induction ts arbitrary: acc) (auto simp: distinct_foldl_setAdd)

lemma set_allPhasesOf: "set (allPhasesOf ts) = (\<Union>t\<in>set ts. set (preferredPhasesOf t))"
  by (simp add: allPhasesOf_def set_allPhases_fold)

lemma distinct_allPhasesOf: "distinct (allPhasesOf ts)"
  by (simp add: allPhasesOf_def distinct_allPhases_fold)

lemma sorted_insertPhase:
  "x \<noteq> NaN \<Longrightarrow> NaN \<notin> set ys \<Longrightarrow> sorted_wrt (\<lambda>a b. \<not> lessNum b a) ys \<Longrightarrow>
   sorted_wrt (\<lambda>a b. \<not> lessNum b a) (insertPhase x ys)"
proof (induction ys)
  case Nil
  show ?case by simp
next
  case (Cons y ys)
  obtain a where a: "x = Fin a" using Cons.prems(1) by (cases x) auto
  obtain b where b: "y = Fin b" using Cons.prems(2) by (cases y) auto
  show ?case
  proof (cases "a < b")
    case True
    have "\<forall>z\<in>set ys. \<not> lessNum z x"
    proof
      fix z assume z: "z \<in> set ys"
      with Cons.prems(2) obtain c where c: "z = Fin c" by (cases z) auto
      from Cons.prems(3) z have "\<not> lessNum z y" by simp
      with c b True show "\<not> lessNum z x" by (simp add: a)
    qed
    with True Cons.prems show ?thesis by (simp add: a b)
  next
    case False
    have "sorted_wrt (\<lambda>a b. \<not> lessNum b a) (insertPhase x ys)"
      using Cons by simp
    moreover have "\<forall>z\<in>set (insertPhase x ys). \<not> lessNum z y"
      using Cons.prems(3) False by (auto simp: set_insertPhase a b)
    ultimately show ?thesis using False by (simp add: a b)
  qed
qed

lemma sort_fold_ascending:
  "NaN \<notin> set acc \<Longrightarrow> NaN \<notin> set xs \<Longrightarrow> sorted_wrt (\<lambda>a b. \<not> lessNum b a) acc \<Longrightarrow>
   sorted_wrt (\<lambda>a b. \<not> lessNum b a) (foldl (\<lambda>sorted x. insertPhase x sorted) acc xs)"
proof (induction xs arbitrary: acc)
  case Nil
  then show ?case by simp
next
  case (Cons x xs)
  from Cons.prems have x: "x \<noteq> NaN" by auto
  have "sorted_wrt (\<lambda>a b. \<not> lessNum b a) (insertPhase x acc)"
    using sorted_insertPhase [OF x Cons.prems(1) Cons.prems(3)] .
  moreover have "NaN \<notin> set (insertPhase x acc)"
    using x Cons.prems(1) by (simp add: set_insertPhase)
  moreover have "NaN \<notin> set xs" using Cons.prems(2) by simp
  ultimately show ?case using Cons.IH [of "insertPhase x acc"] by simp
qed

lemma sortPhases_ascending:
  "NaN \<notin> set xs \<Longrightarrow> sorted_wrt (\<lambda>a b. \<not> lessNum b a) (sortPhases xs)"
  unfolding sortPhases_def by (rule sort_fold_ascending) simp_all

lemma saturationStep_alone:
  "saturationStep ts caps [] p =
     (if entryOrZero (caps p) < totalTaskDurationInPhase ts p
      then [saturationMessage p (totalTaskDurationInPhase ts p) (entryOrZero (caps p))] else [])"
  by (simp add: saturationStep_def Let_def)

lemma saturation_characterised:
  "validatePhaseSlotSaturation ts ws =
     map (\<lambda>p. saturationMessage p
                 (\<Sum>t\<leftarrow>filter (\<lambda>t. p \<in> set (preferredPhasesOf t)) ts. durationOf t)
                 (\<Sum>w\<leftarrow>ws. int (count_list (availableSlotsOf w) p) * maxLoadOf w))
         (filter (\<lambda>p. (\<Sum>w\<leftarrow>ws. int (count_list (availableSlotsOf w) p) * maxLoadOf w)
                        < (\<Sum>t\<leftarrow>filter (\<lambda>t. p \<in> set (preferredPhasesOf t)) ts. durationOf t))
                 (sortPhases (allPhasesOf ts)))"
proof -
  have "saturationStep ts (phaseCapacitiesOf ws) [] =
      (\<lambda>p. if (\<Sum>w\<leftarrow>ws. int (count_list (availableSlotsOf w) p) * maxLoadOf w)
                < (\<Sum>t\<leftarrow>filter (\<lambda>t. p \<in> set (preferredPhasesOf t)) ts. durationOf t)
            then [saturationMessage p
                   (\<Sum>t\<leftarrow>filter (\<lambda>t. p \<in> set (preferredPhasesOf t)) ts. durationOf t)
                   (\<Sum>w\<leftarrow>ws. int (count_list (availableSlotsOf w) p) * maxLoadOf w)]
            else [])"
    by (rule ext) (simp add: saturationStep_alone phaseCapacities_sum totalDuration_sum)
  then show ?thesis
    by (simp add: validatePhaseSlotSaturation_phases concat_map_if)
qed

subsection \<open>Skill counts\<close>

















subsection \<open>Duplicate identifiers\<close>







subsection \<open>The patterns of the phase syntax match no digits\<close>

text \<open>
  A text without a backslash matches neither pattern, so \<^verbatim>\<open>parsePreferredPhases\<close>
  returns the empty array for it unless it is bracketed, and \<^verbatim>\<open>validateSingleDataset\<close>
  reports it as malformed.
\<close>

lemma split_nonempty: "split sep s \<noteq> []"
  by (induction s) (auto split: list.splits)

lemma split_pieces: "t \<in> set (split sep s) \<Longrightarrow> set t \<subseteq> set s"
proof (induction s arbitrary: t)
  case Nil
  then show ?case by simp
next
  case (Cons c cs)
  show ?case
  proof (cases "c = sep")
    case True
    with Cons show ?thesis by auto
  next
    case False
    obtain u us where u: "split sep cs = u # us"
      using split_nonempty [of sep cs] by (cases "split sep cs") auto
    with False Cons.prems have "t = c # u \<or> t \<in> set us" by simp
    then show ?thesis
    proof
      assume "t = c # u"
      moreover have "set u \<subseteq> set cs" using Cons.IH [of u] u by simp
      ultimately show ?thesis by auto
    next
      assume "t \<in> set us"
      then have "set t \<subseteq> set cs" using Cons.IH [of t] u by simp
      then show ?thesis by auto
    qed
  qed
qed

lemma backslashDs_has_backslash: "backslashDs t \<Longrightarrow> CHR 0x5C \<in> set t"
  by (cases t) (auto simp: backslashDs_def)

lemma no_backslash_no_pattern:
  assumes "CHR 0x5C \<notin> set s"
  shows "\<not> rangePattern s \<and> \<not> listPattern s"
proof -
  have none: "\<not> backslashDs t" if "t \<in> set (split sep s)" for t sep
    using split_pieces [OF that] backslashDs_has_backslash [of t] assms by auto
  have "\<not> rangePattern s"
  proof
    assume r: "rangePattern s"
    then obtain a b where ab: "split CHR ''-'' s = [a, b]" "backslashDs a"
      by (auto simp: rangePattern_def split: list.splits)
    then have "a \<in> set (split CHR ''-'' s)" by simp
    with none ab show False by blast
  qed
  moreover have "\<not> listPattern s"
  proof
    assume l: "listPattern s"
    obtain u us where u: "split CHR '','' s = u # us"
      using split_nonempty [of "CHR '',''" s] by (cases "split CHR '','' s") auto
    with l have "backslashDs u" by (simp add: listPattern_def)
    moreover have "u \<in> set (split CHR '','' s)" using u by simp
    ultimately show False using none by blast
  qed
  ultimately show ?thesis by simp
qed

lemma unbracketed_never_parses:
  assumes "CHR 0x5C \<notin> set s" "\<not> (startsWith s ''['' \<and> endsWith s '']'')"
  shows "parsePreferredPhases s = [] \<and> phasesProblem s \<noteq> None"
  unfolding parsePreferredPhases_def phasesProblem_def if_not_P [OF assms(2)]
  using no_backslash_no_pattern [OF assms(1)] by simp

subsection \<open>C1: the three syntaxes of PreferredPhases\<close>

lemma array_syntax_parses:
  "parsePreferredPhases ''[1,2,3]'' = [Fin 1, Fin 2, Fin 3]"
  by code_simp

lemma range_syntax_parses_to_nothing:
  "parsePreferredPhases ''1-3'' = []"
  by code_simp

lemma list_syntax_parses_to_nothing:
  "parsePreferredPhases ''1,2,3'' = []"
  by code_simp

lemma array_syntax_accepted:
  "validateSingleDataset [taskWithPhases ''[1,2,3]''] Tasks = []"
  by code_simp

lemma range_syntax_rejected:
  "validateSingleDataset [taskWithPhases ''1-3''] Tasks = [malformedPhasesMessage]"
  by code_simp

lemma list_syntax_rejected:
  "validateSingleDataset [taskWithPhases ''1,2,3''] Tasks = [malformedPhasesMessage]"
  by code_simp

lemma doubled_comma_rejected:
  "validateSingleDataset [taskWithPhases ''1,,3''] Tasks = [malformedPhasesMessage]"
  by code_simp

lemma letters_range_rejected:
  "validateSingleDataset [taskWithPhases ''x-y''] Tasks = [malformedPhasesMessage]"
  by code_simp

text \<open>
  Claim C1 says that \<^verbatim>\<open>"[1,2,3]"\<close>, \<^verbatim>\<open>"1-3"\<close> and \<^verbatim>\<open>"1,2,3"\<close> normalize to the same
  phases 1, 2, 3 and that a malformed value such as \<^verbatim>\<open>"1,,3"\<close> or \<^verbatim>\<open>"x-y"\<close> gives exactly
  one structural error for its task row. The source evaluated at these values: only the
  bracketed form yields the phases 1, 2, 3 and passes; the range and the comma list yield
  no phase at all and are reported with the same single message as the two malformed
  values. The row is complete and valid in every other column.
\<close>

theorem phase_syntaxes_evaluated:
  "parsePreferredPhases ''[1,2,3]'' = [Fin 1, Fin 2, Fin 3] \<and>
   parsePreferredPhases ''1-3'' = [] \<and>
   parsePreferredPhases ''1,2,3'' = [] \<and>
   validateSingleDataset [taskWithPhases ''[1,2,3]''] Tasks = [] \<and>
   validateSingleDataset [taskWithPhases ''1-3''] Tasks = [malformedPhasesMessage] \<and>
   validateSingleDataset [taskWithPhases ''1,2,3''] Tasks = [malformedPhasesMessage] \<and>
   validateSingleDataset [taskWithPhases ''1,,3''] Tasks = [malformedPhasesMessage] \<and>
   validateSingleDataset [taskWithPhases ''x-y''] Tasks = [malformedPhasesMessage]"
  by (simp only: array_syntax_parses range_syntax_parses_to_nothing
        list_syntax_parses_to_nothing array_syntax_accepted range_syntax_rejected
        list_syntax_rejected doubled_comma_rejected letters_range_rejected simp_thms)

subsection \<open>C2: phase saturation\<close>

lemma phase_one_preferred:
  "Fin 1 \<in> set (allPhasesOf [taskPhases ''[1]'' 3])"
  by code_simp

lemma set_capacity_is_two:
  "spec_phaseCapacity [workerSlots ''1,1'' 2] (Fin 1) = 2"
  by code_simp

lemma demand_is_three:
  "totalTaskDurationInPhase [taskPhases ''[1]'' 3] (Fin 1) = 3"
  by code_simp

lemma no_saturation_reported:
  "validatePhaseSlotSaturation [taskPhases ''[1]'' 3] [workerSlots ''1,1'' 2] = []"
  by code_simp

text \<open>
  Claim C2, as stated, takes the capacity of a phase to be the sum of MaxLoadPerPhase over
  the workers whose AvailableSlots include the phase. One worker with AvailableSlots
  \<^verbatim>\<open>"1,1"\<close> and MaxLoadPerPhase 2 and one task with PreferredPhases \<^verbatim>\<open>"[1]"\<close> and
  Duration 3: phase 1 is preferred, that capacity is 2, the demand is 3, and no error is
  reported.
\<close>

theorem saturation_set_capacity_counterexample:
  "Fin 1 \<in> set (allPhasesOf [taskPhases ''[1]'' 3]) \<and>
   spec_phaseCapacity [workerSlots ''1,1'' 2] (Fin 1) = 2 \<and>
   totalTaskDurationInPhase [taskPhases ''[1]'' 3] (Fin 1) = 3 \<and>
   validatePhaseSlotSaturation [taskPhases ''[1]'' 3] [workerSlots ''1,1'' 2] = []"
  by (simp only: phase_one_preferred set_capacity_is_two demand_is_three no_saturation_reported
        simp_thms)

lemma saturation_scenario_error:
  "validatePhaseSlotSaturation [taskPhases ''[1]'' 5] [workerSlots ''1'' 2] =
     [''Phase 1: Total task duration (5) exceeds available worker capacity (2).'']"
  by code_simp

lemma saturation_scenario_clear:
  "validatePhaseSlotSaturation [taskPhases ''[1]'' 2] [workerSlots ''1'' 2] = []"
  by code_simp

text \<open>
  Claim C2, amended. For every pair of tasks and workers datasets the saturation check
  reports, in the order of the sorted phases, exactly one error for each phase that
  \<^verbatim>\<open>parsePreferredPhases\<close> yields for some task and on which the demand exceeds the
  capacity; the error names the phase, the demand and the capacity. The demand of a phase
  is the sum of Duration over the tasks whose parsed phases include it; the capacity adds
  a worker's MaxLoadPerPhase once for every entry of its AvailableSlots that reads as
  that phase. The sorted phases are distinct and are the union of the tasks' parsed
  phases. With PreferredPhases in the bracketed form, one worker with AvailableSlots
  \<^verbatim>\<open>"1"\<close> and MaxLoadPerPhase 2 and one task with PreferredPhases \<^verbatim>\<open>"[1]"\<close> and Duration 5
  give the error of phase 1 with demand 5 and capacity 2, and Duration 2 gives none.
\<close>

theorem saturation_errors:
  "validatePhaseSlotSaturation ts ws =
     map (\<lambda>p. saturationMessage p
                 (\<Sum>t\<leftarrow>filter (\<lambda>t. p \<in> set (preferredPhasesOf t)) ts. durationOf t)
                 (\<Sum>w\<leftarrow>ws. int (count_list (availableSlotsOf w) p) * maxLoadOf w))
         (filter (\<lambda>p. (\<Sum>w\<leftarrow>ws. int (count_list (availableSlotsOf w) p) * maxLoadOf w)
                        < (\<Sum>t\<leftarrow>filter (\<lambda>t. p \<in> set (preferredPhasesOf t)) ts. durationOf t))
                 (sortPhases (allPhasesOf ts))) \<and>
   distinct (sortPhases (allPhasesOf ts)) \<and>
   set (sortPhases (allPhasesOf ts)) = (\<Union>t\<in>set ts. set (preferredPhasesOf t)) \<and>
   validatePhaseSlotSaturation [taskPhases ''[1]'' 5] [workerSlots ''1'' 2] =
     [''Phase 1: Total task duration (5) exceeds available worker capacity (2).''] \<and>
   validatePhaseSlotSaturation [taskPhases ''[1]'' 2] [workerSlots ''1'' 2] = []"
  using saturation_characterised [of ts ws]
  by (simp only: distinct_sortPhases distinct_allPhasesOf set_sortPhases set_allPhasesOf
        saturation_scenario_error saturation_scenario_clear simp_thms)

subsection \<open>C3: concurrency feasibility\<close>








lemma inherited_name_not_flagged:
  "validateMaxConcurrencyFeasibility [taskSkilled ''constructor'' 1] [] = []"
  by code_simp





subsection \<open>C4: overloaded workers\<close>

lemma overloadStep_alone:
  "overloadStep [] iw =
     (if truthy (snd iw ''AvailableSlots'') \<and> snd iw ''MaxLoadPerPhase'' \<noteq> None
      then (case parseInt (orEmpty (snd iw ''MaxLoadPerPhase'')) of
              NaN \<Rightarrow> []
            | Fin m \<Rightarrow>
                if int (length (slotNumbers (String (snd iw ''AvailableSlots'')))) < m
                then [overloadMessage (fst iw) (snd iw)
                        (length (slotNumbers (String (snd iw ''AvailableSlots'')))) m]
                else [])
      else [])"
  by (simp add: overloadStep_def Let_def split: jsnum.splits)

lemma empty_slots_spec_reading:
  "spec_availableSlots (workerSlots '''' 3) = []"
  by code_simp

lemma empty_slots_code_reading:
  "availableSlotsOf (workerSlots '''' 3) = [Fin 0]"
  by code_simp

lemma load_is_three:
  "parseInt (orEmpty (workerSlots '''' 3 ''MaxLoadPerPhase'')) = Fin 3"
  by code_simp

lemma empty_slots_no_error:
  "validateOverloadedWorkers [workerSlots '''' 3] = []"
  by code_simp

text \<open>
  Claim C4, as stated, includes the worker whose AvailableSlots is empty. A worker with
  AvailableSlots \<^verbatim>\<open>""\<close> and MaxLoadPerPhase 3 has no slot in the specification's reading
  and one slot (the empty token, read as 0) in the source's; both are fewer than 3, and
  no error is reported, because the check is skipped for a falsy AvailableSlots cell.
\<close>

theorem overload_empty_slots_counterexample:
  "spec_availableSlots (workerSlots '''' 3) = [] \<and>
   availableSlotsOf (workerSlots '''' 3) = [Fin 0] \<and>
   parseInt (orEmpty (workerSlots '''' 3 ''MaxLoadPerPhase'')) = Fin 3 \<and>
   validateOverloadedWorkers [workerSlots '''' 3] = []"
  by (simp only: empty_slots_spec_reading empty_slots_code_reading load_is_three
        empty_slots_no_error simp_thms)

lemma overload_example: "validateOverloadedWorkers
     [workerSlots '''' 3, workerSlots ''1,2'' 3, workerSlots ''1,2,3'' 3] =
   [''Row 2 (WorkerID: N/A): Worker is overloaded. Available slots (2) are less than MaxLoadPerPhase (3).'']"
  by code_simp

text \<open>
  Claim C4, amended. For every workers dataset, a worker whose AvailableSlots cell is
  truthy (present, not the empty string, not 0) and whose MaxLoadPerPhase cell is present
  and reads as an integer m gets exactly one overload error, for its row, if the number of
  comma-separated entries of AvailableSlots that read as numbers is less than m, and none
  if it is at least m; a worker whose AvailableSlots is empty or missing gets none.
\<close>

theorem overload_errors:
  "validateOverloadedWorkers ws =
     concat (map (\<lambda>iw. if truthy (snd iw ''AvailableSlots'') \<and> snd iw ''MaxLoadPerPhase'' \<noteq> None
                        then (case parseInt (orEmpty (snd iw ''MaxLoadPerPhase'')) of
                                NaN \<Rightarrow> []
                              | Fin m \<Rightarrow>
                                  if int (length (slotNumbers (String (snd iw ''AvailableSlots'')))) < m
                                  then [overloadMessage (fst iw) (snd iw)
                                          (length (slotNumbers (String (snd iw ''AvailableSlots'')))) m]
                                  else [])
                        else [])
                 (enumerate 0 ws)) \<and>
   validateOverloadedWorkers [workerSlots '''' 3, workerSlots ''1,2'' 3, workerSlots ''1,2,3'' 3] =
     [''Row 2 (WorkerID: N/A): Worker is overloaded. Available slots (2) are less than MaxLoadPerPhase (3).'']"
proof -
  have "overloadStep [] =
      (\<lambda>iw. if truthy (snd iw ''AvailableSlots'') \<and> snd iw ''MaxLoadPerPhase'' \<noteq> None
                        then (case parseInt (orEmpty (snd iw ''MaxLoadPerPhase'')) of
                                NaN \<Rightarrow> []
                              | Fin m \<Rightarrow>
                                  if int (length (slotNumbers (String (snd iw ''AvailableSlots'')))) < m
                                  then [overloadMessage (fst iw) (snd iw)
                                          (length (slotNumbers (String (snd iw ''AvailableSlots'')))) m]
                                  else [])
                        else [])"
    by (rule ext) (rule overloadStep_alone)
  then have general: "validateOverloadedWorkers ws =
     concat (map (\<lambda>iw. if truthy (snd iw ''AvailableSlots'') \<and> snd iw ''MaxLoadPerPhase'' \<noteq> None
                        then (case parseInt (orEmpty (snd iw ''MaxLoadPerPhase'')) of
                                NaN \<Rightarrow> []
                              | Fin m \<Rightarrow>
                                  if int (length (slotNumbers (String (snd iw ''AvailableSlots'')))) < m
                                  then [overloadMessage (fst iw) (snd iw)
                                          (length (slotNumbers (String (snd iw ''AvailableSlots'')))) m]
                                  else [])
                        else [])
                 (enumerate 0 ws))"
    by (simp only: validateOverloadedWorkers_rows)
  show ?thesis by (rule conjI [OF general overload_example])
qed

subsection \<open>C5: requested tasks\<close>

lemma clientStep_alone:
  "clientStep (newSet (map (\<lambda>task. String (task ''TaskID'')) ts)) [] ic =
     (if truthy (snd ic ''RequestedTaskIDs'')
      then map (clientTaskMessage (fst ic) (snd ic))
             (filter (\<lambda>t. t \<noteq> [] \<and> t \<notin> (\<lambda>task. String (task ''TaskID'')) ` set ts)
                (requestedIds (snd ic)))
      else [])"
  by (simp add: clientStep_def requestedId_fold set_newSet)

lemma trailing_comma_tokens:
  "requestedIds (clientRequesting ''T1,'') = [''T1'', []]"
  by code_simp

lemma known_task_ids:
  "map (\<lambda>task. String (task ''TaskID'')) [taskNamed ''T1''] = [''T1'']"
  by code_simp

lemma trailing_comma_no_error:
  "validateClientTaskRelationship [clientRequesting ''T1,''] [taskNamed ''T1''] = []"
  by code_simp

text \<open>
  Claim C5, as stated, speaks of every trimmed token that equals no TaskID. With the
  task \<^verbatim>\<open>T1\<close> and a client requesting \<^verbatim>\<open>"T1,"\<close> the tokens are \<^verbatim>\<open>T1\<close> and the empty
  string; the empty token equals no TaskID, and no error is reported.
\<close>

theorem reference_empty_token_counterexample:
  "requestedIds (clientRequesting ''T1,'') = [''T1'', []] \<and>
   map (\<lambda>task. String (task ''TaskID'')) [taskNamed ''T1''] = [''T1''] \<and>
   validateClientTaskRelationship [clientRequesting ''T1,''] [taskNamed ''T1''] = []"
  by (simp only: trailing_comma_tokens known_task_ids trailing_comma_no_error simp_thms)

lemma reference_scenario:
  "validateClientTaskRelationship [clientRequesting ''T1,T9''] [taskNamed ''T1''] =
     [''Row 1 (ClientID: C1): Requested Task ID '' @ [CHR 0x27] @ ''T9'' @ [CHR 0x27] @ '' not found in tasks data.'']"
  by code_simp

text \<open>
  Claim C5, amended. Every non-empty trimmed token of a client's RequestedTaskIDs that
  equals no task's TaskID gives exactly one reference error for that client's row, in the
  order of the tokens, and every other token gives none; the full validation appends
  these errors to the clients' schema errors when both datasets are non-empty, and leaves
  them out otherwise. With the task \<^verbatim>\<open>T1\<close> and a client requesting \<^verbatim>\<open>"T1,T9"\<close> exactly
  one reference error is reported, and it names \<^verbatim>\<open>T9\<close>.
\<close>

theorem reference_errors:
  "validateClientTaskRelationship cs ts =
     concat (map (\<lambda>ic. if truthy (snd ic ''RequestedTaskIDs'')
                        then map (clientTaskMessage (fst ic) (snd ic))
                               (filter (\<lambda>t. t \<noteq> [] \<and> t \<notin> (\<lambda>task. String (task ''TaskID'')) ` set ts)
                                  (requestedIds (snd ic)))
                        else [])
                 (enumerate 0 cs)) \<and>
   errorsAt (runValidation cs ws ts st) ''clients'' =
     validateSingleDataset cs Clients @
     (if cs \<noteq> [] \<and> ts \<noteq> [] then validateClientTaskRelationship cs ts else []) \<and>
   validateClientTaskRelationship [clientRequesting ''T1,T9''] [taskNamed ''T1''] =
     [''Row 1 (ClientID: C1): Requested Task ID '' @ [CHR 0x27] @ ''T9'' @ [CHR 0x27]
        @ '' not found in tasks data.'']"
proof -
  have "clientStep (newSet (map (\<lambda>task. String (task ''TaskID'')) ts)) [] =
      (\<lambda>ic. if truthy (snd ic ''RequestedTaskIDs'')
                        then map (clientTaskMessage (fst ic) (snd ic))
                               (filter (\<lambda>t. t \<noteq> [] \<and> t \<notin> (\<lambda>task. String (task ''TaskID'')) ` set ts)
                                  (requestedIds (snd ic)))
                        else [])"
    by (rule ext) (rule clientStep_alone)
  then have general: "validateClientTaskRelationship cs ts =
     concat (map (\<lambda>ic. if truthy (snd ic ''RequestedTaskIDs'')
                        then map (clientTaskMessage (fst ic) (snd ic))
                               (filter (\<lambda>t. t \<noteq> [] \<and> t \<notin> (\<lambda>task. String (task ''TaskID'')) ` set ts)
                                  (requestedIds (snd ic)))
                        else [])
                 (enumerate 0 cs))"
    by (simp only: validateClientTaskRelationship_rows)
  show ?thesis by (rule conjI [OF general conjI [OF report_clients reference_scenario]])
qed

subsection \<open>C6: duplicate primary keys\<close>



subsection \<open>C7: the order of the errors under a key\<close>

text \<open>
  Claim C7. Under the key of the clients the errors are the schema errors, then the
  reference errors; under that of the workers the schema errors, then the overload
  errors; under that of the tasks the schema errors, then the reference errors, then the
  capacity errors (the saturation errors, which name a phase and no row, in the order of
  the sorted phases, then the concurrency errors). Each list of errors that name rows is
  the concatenation, in the order of the rows, of the errors of the single rows; the
  schema errors of the rows follow the two errors that concern the whole dataset.
\<close>

theorem report_order:
  "errorsAt (runValidation c w t st) ''clients'' =
     validateSingleDataset c Clients @
     (if c \<noteq> [] \<and> t \<noteq> [] then validateClientTaskRelationship c t else []) \<and>
   errorsAt (runValidation c w t st) ''workers'' =
     validateSingleDataset w Workers @ validateOverloadedWorkers w \<and>
   errorsAt (runValidation c w t st) ''tasks'' =
     validateSingleDataset t Tasks @
     (if t \<noteq> [] \<and> w \<noteq> [] then validateTaskWorkerRelationship t w else []) @
     validatePhaseSlotSaturation t w @ validateMaxConcurrencyFeasibility t w \<and>
   validateSingleDataset d ty =
     duplicateIdsCheck d ty (missingColumnsCheck d ty []) @
     concat (map (rowChecks ty []) (enumerate 0 d)) \<and>
   validateClientTaskRelationship c t =
     concat (map (clientStep (newSet (map (\<lambda>task. String (task ''TaskID'')) t)) [])
                 (enumerate 0 c)) \<and>
   validateTaskWorkerRelationship t w =
     concat (map (taskSkillStep (newSet (concat (map skillsOf w))) []) (enumerate 0 t)) \<and>
   validateOverloadedWorkers w = concat (map (overloadStep []) (enumerate 0 w)) \<and>
   validatePhaseSlotSaturation t w =
     concat (map (saturationStep t (phaseCapacitiesOf w) []) (sortPhases (allPhasesOf t))) \<and>
   validateMaxConcurrencyFeasibility t w =
     concat (map (concurrencyStep (skillToWorkerCountOf w) []) (enumerate 0 t))"
  by (intro conjI report_clients report_workers report_tasks validateSingleDataset_rows
      validateClientTaskRelationship_rows validateTaskWorkerRelationship_rows
      validateOverloadedWorkers_rows validatePhaseSlotSaturation_phases
      validateMaxConcurrencyFeasibility_rows)

subsection \<open>C8: validation twice on one snapshot\<close>

lemma revalidation_keeps_datasets:
  "storeParsed ''data-modification-trigger'' [] s = s"
proof -
  have "\<not> includesText ''data-modification-trigger'' ''clients''" by code_simp
  moreover have "\<not> includesText ''data-modification-trigger'' ''workers''" by code_simp
  moreover have "\<not> includesText ''data-modification-trigger'' ''tasks''" by code_simp
  ultimately show ?thesis by (simp add: storeParsed_def)
qed

text \<open>
  Claim C8. The report a validation pass stores depends on the three datasets only: two
  passes on states that hold the same datasets store the same report, whatever report
  was stored before and whatever file name and parsed rows the pass was started with; and
  a revalidation pass run a second time on the state that the first one left gives that
  state again.
\<close>

theorem validation_is_function_of_snapshot:
  assumes "clientsData s = clientsData s'"
    and "workersData s = workersData s'"
    and "tasksData s = tasksData s'"
  shows "validationErrors (triggerFullValidation f d co wo to s) =
           validationErrors (triggerFullValidation f' d' co wo to s') \<and>
         triggerFullValidation ''data-modification-trigger'' [] None None None
           (triggerFullValidation ''data-modification-trigger'' [] None None None s) =
         triggerFullValidation ''data-modification-trigger'' [] None None None s"
  using assms by (simp add: triggerFullValidation_def revalidation_keeps_datasets)

text \<open>The two passes on a snapshot with and without a stale report (witness for C8).\<close>

theorem validation_is_function_of_snapshot_witness:
  "validationErrors
     (triggerFullValidation ''applied-corrections'' [] None None None (snapshot [])) =
   validationErrors
     (triggerFullValidation ''batch-upload'' [] None None None
        (snapshot [(''clients'', [''stale''])])) \<and>
   triggerFullValidation ''data-modification-trigger'' [] None None None
     (triggerFullValidation ''data-modification-trigger'' [] None None None (snapshot [])) =
   triggerFullValidation ''data-modification-trigger'' [] None None None (snapshot [])"
  using validation_is_function_of_snapshot
    [of "snapshot []" "snapshot [(''clients'', [''stale''])]" "''applied-corrections''" "[]"
        None None None "''batch-upload''" "[]"]
  by (simp add: snapshot_def)

subsection \<open>C9: repeated slots in the capacity\<close>

lemma tripled_slot_capacity:
  "entryOrZero (phaseCapacitiesOf [workerSlots ''4,4,4'' 1] (Fin 4)) = 3"
  by code_simp

lemma tripled_slot_set_capacity:
  "spec_phaseCapacity [workerSlots ''4,4,4'' 1] (Fin 4) = 1"
  by code_simp

lemma tripled_slot_no_error:
  "validatePhaseSlotSaturation [taskPhases ''[4]'' 2] [workerSlots ''4,4,4'' 1] = []"
  by code_simp

lemma single_slot_error:
  "validatePhaseSlotSaturation [taskPhases ''[4]'' 2] [workerSlots ''4'' 1] =
     [''Phase 4: Total task duration (2) exceeds available worker capacity (1).'']"
  by code_simp

text \<open>
  Claim C9. The capacity the saturation check computes for a phase adds a worker's
  MaxLoadPerPhase once for every entry of its AvailableSlots that reads as that phase.
  A worker with AvailableSlots \<^verbatim>\<open>"4,4,4"\<close> and MaxLoadPerPhase 1 has capacity 3 on phase
  4, where the capacity over the set of its slots is 1; a task of Duration 2 on phase 4
  is then not reported, and it is reported when the slot is listed once.
\<close>

theorem repeated_slots_inflate_capacity:
  "entryOrZero (phaseCapacitiesOf ws p) =
     (\<Sum>w\<leftarrow>ws. int (count_list (availableSlotsOf w) p) * maxLoadOf w) \<and>
   entryOrZero (phaseCapacitiesOf [workerSlots ''4,4,4'' 1] (Fin 4)) = 3 \<and>
   spec_phaseCapacity [workerSlots ''4,4,4'' 1] (Fin 4) = 1 \<and>
   validatePhaseSlotSaturation [taskPhases ''[4]'' 2] [workerSlots ''4,4,4'' 1] = [] \<and>
   validatePhaseSlotSaturation [taskPhases ''[4]'' 2] [workerSlots ''4'' 1] =
     [''Phase 4: Total task duration (2) exceeds available worker capacity (1).'']"
  using phaseCapacities_sum [of ws p] by (simp only: tripled_slot_capacity tripled_slot_set_capacity tripled_slot_no_error single_slot_error simp_thms)

subsection \<open>C10: empty tokens in the cross-reference checks\<close>


end
